theory Spec2Isabelle
  imports Complex_Main "HOL-Library.AList"
begin

section \<open>Text primitives\<close>

text \<open>
  Python \<open>str\<close> values are modelled as \<open>string\<close>.  The character tables below are
  the ASCII part of Python's Unicode tables, so the model follows the program on ASCII text
  (URLs, markup and JSON of the site); a character outside ASCII is treated as caseless,
  non-word and non-space.
\<close>

definition ascii_upper :: string where
  "ascii_upper = ''ABCDEFGHIJKLMNOPQRSTUVWXYZ''"

definition ascii_lower :: string where
  "ascii_lower = ''abcdefghijklmnopqrstuvwxyz''"

definition digit_chars :: string where
  "digit_chars = ''0123456789''"

definition dq :: char where
  "dq = CHR 0x22"

definition sq :: char where
  "sq = CHR 0x27"

definition backslash :: char where
  "backslash = CHR 0x5C"

definition newline :: char where
  "newline = CHR 0x0A"

definition lower_char :: "char \<Rightarrow> char" where
  "lower_char c = (case map_of (zip ascii_upper ascii_lower) c of Some d \<Rightarrow> d | None \<Rightarrow> c)"

definition upper_char :: "char \<Rightarrow> char" where
  "upper_char c = (case map_of (zip ascii_lower ascii_upper) c of Some d \<Rightarrow> d | None \<Rightarrow> c)"

definition py_lower :: "string \<Rightarrow> string" where
  "py_lower s = map lower_char s"

definition is_digit :: "char \<Rightarrow> bool" where
  "is_digit c = (c \<in> set digit_chars)"

definition is_alpha :: "char \<Rightarrow> bool" where
  "is_alpha c = (c \<in> set ascii_upper \<or> c \<in> set ascii_lower)"

definition is_word :: "char \<Rightarrow> bool" where
  "is_word c = (is_alpha c \<or> is_digit c \<or> c = CHR ''_'')"

definition is_space :: "char \<Rightarrow> bool" where
  "is_space c = (c \<in> set [CHR 0x20, CHR 0x09, CHR 0x0A, CHR 0x0B, CHR 0x0C, CHR 0x0D,
                            CHR 0x1C, CHR 0x1D, CHR 0x1E, CHR 0x1F])"

text \<open>\<open>s.startswith(pre)\<close>, \<open>s.endswith(suf)\<close> and \<open>sub in s\<close>.\<close>

fun startswith :: "string \<Rightarrow> string \<Rightarrow> bool" where
  "startswith s [] = True"
| "startswith [] (x # xs) = False"
| "startswith (y # ys) (x # xs) = (x = y \<and> startswith ys xs)"

definition endswith :: "string \<Rightarrow> string \<Rightarrow> bool" where
  "endswith s suf = startswith (rev s) (rev suf)"

fun contains :: "string \<Rightarrow> string \<Rightarrow> bool" where
  "contains [] sub = (sub = [])"
| "contains (y # ys) sub = (startswith (y # ys) sub \<or> contains ys sub)"

text \<open>\<open>str(n)\<close> and \<open>int(s)\<close> for decimal numerals.\<close>

definition digit_char :: "int \<Rightarrow> char" where
  "digit_char d = digit_chars ! nat (d mod 10)"

function str_nonneg :: "int \<Rightarrow> string" where
  "str_nonneg n = (if n < 10 then [digit_char n] else str_nonneg (n div 10) @ [digit_char (n mod 10)])"
  by pat_completeness auto
termination
  by (relation "measure nat") auto

declare str_nonneg.simps [simp del]

definition str_int :: "int \<Rightarrow> string" where
  "str_int i = (if i < 0 then CHR ''-'' # str_nonneg (- i) else str_nonneg i)"

definition digit_val :: "char \<Rightarrow> int" where
  "digit_val c = int (length (takeWhile (\<lambda>d. d \<noteq> c) digit_chars))"

definition int_of_digits :: "string \<Rightarrow> int" where
  "int_of_digits s = foldl (\<lambda>acc c. 10 * acc + digit_val c) 0 s"

section \<open>Regular expressions\<close>

text \<open>
  The patterns of the program use literals, character classes with bounded or unbounded
  repetition (greedy or lazy), sequencing, alternation, capture groups, \<open>\b\<close> and \<open>$\<close>.
  \<open>rx_match\<close> lists every way a pattern can match at the current position in the order
  in which Python's backtracking matcher tries them, so the head of the list is the match
  that \<open>re\<close> reports.  A matcher state is the character before the position (for \<open>\b\<close>),
  the rest of the subject and the captured groups.
\<close>

datatype cclass = Digit | Space | Dot | OneOf string | NoneOf string

fun cls_ok :: "bool \<Rightarrow> cclass \<Rightarrow> char \<Rightarrow> bool" where
  "cls_ok ic Digit c = is_digit c"
| "cls_ok ic Space c = is_space c"
| "cls_ok ic Dot c = (c \<noteq> newline)"
| "cls_ok ic (OneOf S) c =
     (c \<in> set S \<or> (ic \<and> (lower_char c \<in> set S \<or> upper_char c \<in> set S)))"
| "cls_ok ic (NoneOf S) c =
     (\<not> (c \<in> set S \<or> (ic \<and> (lower_char c \<in> set S \<or> upper_char c \<in> set S))))"

datatype rx =
    Lit string
  | Rep cclass nat "nat option" bool
  | Seq rx rx
  | Alt rx rx
  | Grp nat rx
  | WordB
  | EndAnchor

type_synonym captures = "(nat \<times> string) list"
type_synonym mstate = "char option \<times> string \<times> captures"

definition chr_eq :: "bool \<Rightarrow> char \<Rightarrow> char \<Rightarrow> bool" where
  "chr_eq ic x y = (x = y \<or> (ic \<and> lower_char x = lower_char y))"

fun lit_match :: "bool \<Rightarrow> string \<Rightarrow> char option \<Rightarrow> string \<Rightarrow> (char option \<times> string) option" where
  "lit_match ic [] p r = Some (p, r)"
| "lit_match ic (x # xs) p [] = None"
| "lit_match ic (x # xs) p (y # ys) = (if chr_eq ic x y then lit_match ic xs (Some y) ys else None)"

definition after_chars :: "char option \<Rightarrow> string \<Rightarrow> nat \<Rightarrow> char option \<times> string" where
  "after_chars p r k = (if k = 0 then p else Some (r ! (k - 1)), drop k r)"

definition rep_results ::
  "bool \<Rightarrow> cclass \<Rightarrow> nat \<Rightarrow> nat option \<Rightarrow> bool \<Rightarrow> char option \<Rightarrow> string \<Rightarrow> (char option \<times> string) list" where
  "rep_results ic cl lo hi greedy p r =
     (let n = length (takeWhile (cls_ok ic cl) r);
          m = (case hi of None \<Rightarrow> n | Some h \<Rightarrow> min h n);
          ks = (if greedy then rev [lo..<Suc m] else [lo..<Suc m])
      in map (after_chars p r) ks)"

definition at_word_boundary :: "char option \<Rightarrow> string \<Rightarrow> bool" where
  "at_word_boundary p r =
     ((case p of None \<Rightarrow> False | Some c \<Rightarrow> is_word c) \<noteq>
      (case r of [] \<Rightarrow> False | c # _ \<Rightarrow> is_word c))"

primrec rx_match :: "bool \<Rightarrow> rx \<Rightarrow> mstate \<Rightarrow> mstate list" where
  "rx_match ic (Lit l) st =
     (case st of (p, r, c) \<Rightarrow>
        (case lit_match ic l p r of None \<Rightarrow> [] | Some (p', r') \<Rightarrow> [(p', r', c)]))"
| "rx_match ic (Rep cl lo hi greedy) st =
     (case st of (p, r, c) \<Rightarrow>
        map (\<lambda>(p', r'). (p', r', c)) (rep_results ic cl lo hi greedy p r))"
| "rx_match ic (Seq a b) st = concat (map (rx_match ic b) (rx_match ic a st))"
| "rx_match ic (Alt a b) st = rx_match ic a st @ rx_match ic b st"
| "rx_match ic (Grp k a) st =
     (case st of (p, r, c) \<Rightarrow>
        map (\<lambda>(p', r', c'). (p', r', AList.update k (take (length r - length r') r) c'))
            (rx_match ic a st))"
| "rx_match ic WordB st =
     (case st of (p, r, c) \<Rightarrow> if at_word_boundary p r then [st] else [])"
| "rx_match ic EndAnchor st =
     (case st of (p, r, c) \<Rightarrow> if r = [] \<or> r = [newline] then [st] else [])"

definition seqs :: "rx list \<Rightarrow> rx" where
  "seqs rs = foldr Seq rs (Lit [])"

definition alts :: "rx \<Rightarrow> rx list \<Rightarrow> rx" where
  "alts r rs = foldl Alt r rs"

abbreviation plus_of :: "cclass \<Rightarrow> rx" where
  "plus_of cl \<equiv> Rep cl 1 None True"

abbreviation star_of :: "cclass \<Rightarrow> rx" where
  "star_of cl \<equiv> Rep cl 0 None True"

abbreviation lazy_star_of :: "cclass \<Rightarrow> rx" where
  "lazy_star_of cl \<equiv> Rep cl 0 None False"

abbreviation opt_chr :: "char \<Rightarrow> rx" where
  "opt_chr c \<equiv> Rep (OneOf [c]) 0 (Some 1) True"

text \<open>
  \<open>re.search\<close>: the leftmost position with a match, and there the first match in
  backtracking order.  The result is the start offset and the final matcher state.
\<close>

fun rx_search_at :: "bool \<Rightarrow> rx \<Rightarrow> nat \<Rightarrow> char option \<Rightarrow> string \<Rightarrow> (nat \<times> mstate) option" where
  "rx_search_at ic r pos p [] =
     (case rx_match ic r (p, [], []) of [] \<Rightarrow> None | m # _ \<Rightarrow> Some (pos, m))"
| "rx_search_at ic r pos p (y # ys) =
     (case rx_match ic r (p, y # ys, []) of
        [] \<Rightarrow> rx_search_at ic r (Suc pos) (Some y) ys
      | m # _ \<Rightarrow> Some (pos, m))"

definition re_search :: "bool \<Rightarrow> rx \<Rightarrow> string \<Rightarrow> captures option" where
  "re_search ic r s = map_option (\<lambda>(pos, p, rest, caps). caps) (rx_search_at ic r 0 None s)"

text \<open>
  \<open>m.group(k)\<close> of the first match.  Every group read by the program lies on the
  mandatory path of its pattern, so an unset group does not occur on a match.
\<close>

definition search_group :: "bool \<Rightarrow> rx \<Rightarrow> nat \<Rightarrow> string \<Rightarrow> string option" where
  "search_group ic r k s = Option.bind (re_search ic r s) (\<lambda>caps. map_of caps k)"

section \<open>Identifier extraction\<close>

text \<open>\<open>extract_stage_id\<close>: \<open>re.search(r'-(\d+)$', url)\<close>, group 1 or \<open>None\<close>.\<close>

definition stage_id_rx :: rx where
  "stage_id_rx = seqs [Lit ''-'', Grp 1 (plus_of Digit), EndAnchor]"

definition extract_stage_id :: "string \<Rightarrow> string option" where
  "extract_stage_id url = search_group False stage_id_rx 1 url"


text \<open>
  \<open>re.finditer\<close> / \<open>re.findall\<close>: the successive non-overlapping matches, scanned
  left to right; the result lists the start offset and the captures of each match.
\<close>

function rx_finditer :: "bool \<Rightarrow> rx \<Rightarrow> nat \<Rightarrow> char option \<Rightarrow> string \<Rightarrow> (nat \<times> captures) list" where
  "rx_finditer ic r pos p s =
     (case rx_match ic r (p, s, []) of
        (p', s', caps) # _ \<Rightarrow>
          if length s' < length s
          then (pos, caps) # rx_finditer ic r (pos + (length s - length s')) p' s'
          else (pos, caps) # (case s of [] \<Rightarrow> [] | y # ys \<Rightarrow> rx_finditer ic r (Suc pos) (Some y) ys)
      | [] \<Rightarrow> (case s of [] \<Rightarrow> [] | y # ys \<Rightarrow> rx_finditer ic r (Suc pos) (Some y) ys))"
  by pat_completeness auto
termination
  by (relation "measure (\<lambda>(ic, r, pos, p, s). length s)") auto

declare rx_finditer.simps [simp del]

definition re_finditer :: "bool \<Rightarrow> rx \<Rightarrow> string \<Rightarrow> (nat \<times> captures) list" where
  "re_finditer ic r s = rx_finditer ic r 0 None s"

text \<open>
  \<open>re.sub\<close> with a two-group template: every non-overlapping match is replaced by
  \<open>tmpl g1 g2\<close>, the text between matches is kept.
\<close>

function rx_sub :: "rx \<Rightarrow> (string \<Rightarrow> string \<Rightarrow> string) \<Rightarrow> char option \<Rightarrow> string \<Rightarrow> string" where
  "rx_sub r tmpl p s =
     (case rx_match False r (p, s, []) of
        (p', s', caps) # _ \<Rightarrow>
          if length s' < length s
          then tmpl (case map_of caps 1 of None \<Rightarrow> [] | Some g \<Rightarrow> g)
                    (case map_of caps 2 of None \<Rightarrow> [] | Some g \<Rightarrow> g) @ rx_sub r tmpl p' s'
          else (case s of [] \<Rightarrow> [] | y # ys \<Rightarrow> y # rx_sub r tmpl (Some y) ys)
      | [] \<Rightarrow> (case s of [] \<Rightarrow> [] | y # ys \<Rightarrow> y # rx_sub r tmpl (Some y) ys))"
  by pat_completeness auto
termination
  by (relation "measure (\<lambda>(r, tmpl, p, s). length s)") auto

declare rx_sub.simps [simp del]

definition re_sub :: "rx \<Rightarrow> (string \<Rightarrow> string \<Rightarrow> string) \<Rightarrow> string \<Rightarrow> string" where
  "re_sub r tmpl s = rx_sub r tmpl None s"

fun ngroups :: "rx \<Rightarrow> nat" where
  "ngroups (Lit l) = 0"
| "ngroups (Rep cl lo hi g) = 0"
| "ngroups (Seq a b) = ngroups a + ngroups b"
| "ngroups (Alt a b) = ngroups a + ngroups b"
| "ngroups (Grp k a) = Suc (ngroups a)"
| "ngroups WordB = 0"
| "ngroups EndAnchor = 0"

section \<open>Python values\<close>

text \<open>
  The values that \<open>json.loads\<close> produces and that the dictionaries of the program hold.
  JSON numbers are integers here; a JSON number with a fraction (a Python \<open>float\<close>) is
  outside the model.  A dictionary is an association list in insertion order.
\<close>

datatype pyval =
    PNone
  | PBool bool
  | PInt int
  | PStr string
  | PList "pyval list"
  | PDict "(string \<times> pyval) list"

type_synonym pydict = "(string \<times> pyval) list"

fun truthy :: "pyval \<Rightarrow> bool" where
  "truthy PNone = False"
| "truthy (PBool b) = b"
| "truthy (PInt i) = (i \<noteq> 0)"
| "truthy (PStr s) = (s \<noteq> [])"
| "truthy (PList xs) = (xs \<noteq> [])"
| "truthy (PDict d) = (d \<noteq> [])"

text \<open>\<open>d.get(k)\<close>, \<open>d.get(k, default)\<close> and \<open>d[k] = v\<close> on a dictionary.\<close>

definition dget :: "pydict \<Rightarrow> string \<Rightarrow> pyval" where
  "dget d k = (case map_of d k of None \<Rightarrow> PNone | Some v \<Rightarrow> v)"

definition dget_or :: "pydict \<Rightarrow> string \<Rightarrow> pyval \<Rightarrow> pyval" where
  "dget_or d k dflt = (case map_of d k of None \<Rightarrow> dflt | Some v \<Rightarrow> v)"

definition dset :: "pydict \<Rightarrow> string \<Rightarrow> pyval \<Rightarrow> pydict" where
  "dset d k v = AList.update k v d"

text \<open>
  \<open>obj.get(k, default)\<close> on an arbitrary value: \<open>None\<close> stands for the
  \<open>AttributeError\<close> raised when \<open>obj\<close> is not a dictionary.
\<close>

definition py_get :: "pyval \<Rightarrow> string \<Rightarrow> pyval \<Rightarrow> pyval option" where
  "py_get obj k dflt = (case obj of PDict d \<Rightarrow> Some (dget_or d k dflt) | _ \<Rightarrow> None)"

fun join :: "string \<Rightarrow> string list \<Rightarrow> string" where
  "join sep [] = []"
| "join sep [x] = x"
| "join sep (x # y # ys) = x @ sep @ join sep (y # ys)"

definition hex_chars :: string where
  "hex_chars = ''0123456789abcdef''"

definition hex2 :: "char \<Rightarrow> string" where
  "hex2 c = [hex_chars ! ((of_char c :: nat) div 16), hex_chars ! ((of_char c :: nat) mod 16)]"

text \<open>\<open>json.dumps\<close> with its defaults: separators \<open>", "\<close> and \<open>": "\<close>, \<open>ensure_ascii\<close>.\<close>

definition json_escape_char :: "char \<Rightarrow> string" where
  "json_escape_char c =
     (if c = dq then [backslash, dq]
      else if c = backslash then [backslash, backslash]
      else if c = newline then [backslash, CHR ''n'']
      else if c = CHR 0x0D then [backslash, CHR ''r'']
      else if c = CHR 0x09 then [backslash, CHR ''t'']
      else if c = CHR 0x08 then [backslash, CHR ''b'']
      else if c = CHR 0x0C then [backslash, CHR ''f'']
      else if (of_char c :: nat) < 32 \<or> (of_char c :: nat) > 126
           then backslash # ''u00'' @ hex2 c
      else [c])"

definition json_string :: "string \<Rightarrow> string" where
  "json_string s = dq # concat (map json_escape_char s) @ [dq]"

primrec json_dumps :: "pyval \<Rightarrow> string" where
  "json_dumps PNone = ''null''"
| "json_dumps (PBool b) = (if b then ''true'' else ''false'')"
| "json_dumps (PInt i) = str_int i"
| "json_dumps (PStr s) = json_string s"
| "json_dumps (PList xs) = ''['' @ join '', '' (map json_dumps xs) @ '']''"
| "json_dumps (PDict d) =
     ''{'' @ join '', '' (map (\<lambda>(k, v). json_string k @ '': '' @ v) (map (map_prod id json_dumps) d)) @ ''}''"

text \<open>\<open>repr\<close> and \<open>str\<close> of a value.\<close>

definition repr_escape_char :: "char \<Rightarrow> char \<Rightarrow> string" where
  "repr_escape_char quote c =
     (if c = backslash then [backslash, backslash]
      else if c = quote then [backslash, quote]
      else if c = newline then [backslash, CHR ''n'']
      else if c = CHR 0x0D then [backslash, CHR ''r'']
      else if c = CHR 0x09 then [backslash, CHR ''t'']
      else if (of_char c :: nat) < 32 \<or> (of_char c :: nat) = 127
           then backslash # CHR ''x'' # hex2 c
      else [c])"

definition repr_string :: "string \<Rightarrow> string" where
  "repr_string s =
     (let quote = (if sq \<in> set s \<and> dq \<notin> set s then dq else sq)
      in quote # concat (map (repr_escape_char quote) s) @ [quote])"

primrec py_repr :: "pyval \<Rightarrow> string" where
  "py_repr PNone = ''None''"
| "py_repr (PBool b) = (if b then ''True'' else ''False'')"
| "py_repr (PInt i) = str_int i"
| "py_repr (PStr s) = repr_string s"
| "py_repr (PList xs) = ''['' @ join '', '' (map py_repr xs) @ '']''"
| "py_repr (PDict d) =
     ''{'' @ join '', '' (map (\<lambda>(k, v). repr_string k @ '': '' @ v) (map (map_prod id py_repr) d)) @ ''}''"

definition py_str :: "pyval \<Rightarrow> string" where
  "py_str v = (case v of PStr s \<Rightarrow> s | _ \<Rightarrow> py_repr v)"

text \<open>\<open>str.title()\<close>, \<open>str.strip(c)\<close>, \<open>str.split(c)\<close> and \<open>s.replace("\\n", "\n")\<close>.\<close>

fun title_from :: "bool \<Rightarrow> string \<Rightarrow> string" where
  "title_from prev_cased [] = []"
| "title_from prev_cased (c # cs) =
     (if is_alpha c
      then (if prev_cased then lower_char c else upper_char c) # title_from True cs
      else c # title_from False cs)"

definition py_title :: "string \<Rightarrow> string" where
  "py_title s = title_from False s"

definition strip_chr :: "char \<Rightarrow> string \<Rightarrow> string" where
  "strip_chr c s = rev (dropWhile (\<lambda>x. x = c) (rev (dropWhile (\<lambda>x. x = c) s)))"

fun split_chr :: "char \<Rightarrow> string \<Rightarrow> string list" where
  "split_chr c [] = [[]]"
| "split_chr c (x # xs) =
     (case split_chr c xs of
        [] \<Rightarrow> [[]]
      | part # parts \<Rightarrow> if x = c then [] # part # parts else (x # part) # parts)"

fun unescape_newlines :: "string \<Rightarrow> string" where
  "unescape_newlines (a # b # rest) =
     (if a = backslash \<and> b = CHR ''n'' then newline # unescape_newlines rest
      else a # unescape_newlines (b # rest))"
| "unescape_newlines s = s"

text \<open>
  The seconds-to-text conversion that the program writes out three times
  (in \<open>get_stage_identity\<close> and twice in \<open>extract_from_next_data\<close>):
  \<open>minutes = seconds // 60; hours = minutes // 60; remaining = minutes % 60\<close>.
\<close>

definition format_hm :: "int \<Rightarrow> int \<Rightarrow> string" where
  "format_hm hours minutes =
     (if hours > 0 then str_int hours @ ''h '' @ str_int minutes @ ''m''
      else str_int minutes @ ''m'')"

definition seconds_to_text :: "int \<Rightarrow> string" where
  "seconds_to_text seconds =
     (let minutes = seconds div 60; hours = minutes div 60; remaining_minutes = minutes mod 60
      in format_hm hours remaining_minutes)"


section \<open>Parsed markup\<close>

text \<open>
  \<open>BeautifulSoup\<close> and \<open>json.loads\<close> are libraries outside the repository; the model
  takes what they return for a page.  An \<open>element\<close> carries \<open>get_text(strip=True)\<close> and
  the \<open>content\<close> attribute.  \<open>select_one\<close> is \<open>soup.select_one(selector)\<close>.
  \<open>next_data\<close> is the script with id \<open>__NEXT_DATA__\<close> and \<open>ld_json\<close> the script of
  type \<open>application/ld+json\<close>: \<open>None\<close> when \<open>soup.find\<close> finds no such script,
  \<open>Some None\<close> when \<open>json.loads\<close> raises on its text, \<open>Some (Some v)\<close> when it
  returns \<open>v\<close>.
\<close>

record element =
  el_text :: string
  el_content :: "string option"

record soup =
  select_one :: "string \<Rightarrow> element option"
  next_data :: "pyval option option"
  ld_json :: "pyval option option"

section \<open>Layer A: \<open>extract_embedded_data\<close>\<close>

subsection \<open>Movie or series\<close>

definition url_path_indicators :: "string list" where
  "url_path_indicators = [''/show/'', ''/series/'', ''/web-series/'', ''/tv-show/'']"

definition known_series :: "string list" where
  "known_series = [''videshi bahu'', ''ramayan'', ''mahabharat'', ''sacred games'']"

definition series_indicators :: "string list" where
  "series_indicators = [''episode'', ''season'', ''series'', ''show'']"

definition movie_indicators :: "string list" where
  "movie_indicators = [''movie'', ''film'', ''cinema'']"

text \<open>The pattern \<open>r'\b' + re.escape(word) + r'\b'\<close>.\<close>

definition whole_word :: "string \<Rightarrow> rx" where
  "whole_word w = seqs [WordB, Lit w, WordB]"

text \<open>
  The 100-character window around a match and the test that skips a match inside search
  suggestions: \<open>content_lower[max(0, pos - 100) : min(len, pos + 100)]\<close>.
\<close>

definition match_context :: "string \<Rightarrow> nat \<Rightarrow> string" where
  "match_context content_lower match_pos =
     (let context_start = match_pos - 100;
          context_end = min (length content_lower) (match_pos + 100)
      in take (context_end - context_start) (drop context_start content_lower))"

definition in_suggestions :: "string \<Rightarrow> nat \<Rightarrow> bool" where
  "in_suggestions content_lower match_pos =
     (let context = match_context content_lower match_pos
      in contains context (dq # ''search_screen'' @ [dq]) \<or> contains context ''textfieldlabel'')"

definition is_known_series :: "string \<Rightarrow> bool" where
  "is_known_series content_lower =
     list_ex (\<lambda>series.
        list_ex (\<lambda>(match_pos, caps). \<not> in_suggestions content_lower match_pos)
                (re_finditer True (whole_word series) content_lower))
       known_series"

definition series_count :: "string \<Rightarrow> nat" where
  "series_count content_lower =
     sum_list (map (\<lambda>w. length (re_finditer True (whole_word w) content_lower)) series_indicators)"

definition movie_count :: "string \<Rightarrow> nat" where
  "movie_count content_lower = length (filter (contains content_lower) movie_indicators)"

definition classify_type :: "string \<Rightarrow> pydict \<Rightarrow> pydict" where
  "classify_type html_content result =
     (let content_lower = py_lower html_content in
      if list_ex (contains content_lower) url_path_indicators
      then dset result ''type'' (PStr ''series'')
      else if is_known_series content_lower
      then (let result = dset result ''type'' (PStr ''series'')
            in if contains content_lower ''videshi bahu''
               then dset result ''episode_count'' (PInt 12) else result)
      else if contains content_lower ''/movie/''
      then dset result ''type'' (PStr ''movie'')
      else if series_count content_lower \<ge> 2 \<and> movie_count content_lower \<le> 1
      then dset result ''type'' (PStr ''series'')
      else dset result ''type'' (PStr ''movie''))"

subsection \<open>Title and description\<close>

definition title_selectors :: "string list" where
  "title_selectors =
     [''h1'', ''title'',
      ''[data-testid='' @ [sq] @ ''movie-title'' @ [sq] @ '']'',
      ''.movie-title'',
      ''meta[property='' @ [sq] @ ''og:title'' @ [sq] @ '']'']"

definition desc_selectors :: "string list" where
  "desc_selectors =
     [''meta[property='' @ [sq] @ ''og:description'' @ [sq] @ '']'',
      ''meta[name='' @ [sq] @ ''description'' @ [sq] @ '']'',
      ''.movie-description'', ''.description'', ''p'']"

definition content_attr :: "element \<Rightarrow> string" where
  "content_attr e = (case el_content e of None \<Rightarrow> [] | Some c \<Rightarrow> c)"

fun title_loop :: "soup \<Rightarrow> string list \<Rightarrow> pydict \<Rightarrow> pydict" where
  "title_loop sp [] result = result"
| "title_loop sp (selector # rest) result =
     (case select_one sp selector of
        None \<Rightarrow> title_loop sp rest result
      | Some e \<Rightarrow>
          (let title = (if el_text e \<noteq> [] then el_text e else content_attr e)
           in if title \<noteq> [] \<and> title \<noteq> ''STAGE''
              then dset result ''title'' (PStr title)
              else title_loop sp rest result))"

fun desc_loop :: "soup \<Rightarrow> string list \<Rightarrow> pydict \<Rightarrow> pydict" where
  "desc_loop sp [] result = result"
| "desc_loop sp (selector # rest) result =
     (case select_one sp selector of
        None \<Rightarrow> desc_loop sp rest result
      | Some e \<Rightarrow>
          (let desc = (if content_attr e \<noteq> [] then content_attr e else el_text e)
           in if desc \<noteq> [] \<and> length desc > 50
              then dset result ''description'' (PStr desc)
              else desc_loop sp rest result))"

subsection \<open>Duration\<close>

abbreviation digits_1_2 :: rx where
  "digits_1_2 \<equiv> Rep Digit 1 (Some 2) True"

abbreviation digits_2 :: rx where
  "digits_2 \<equiv> Rep Digit 2 (Some 2) True"

abbreviation spaces :: rx where
  "spaces \<equiv> star_of Space"

abbreviation digits :: rx where
  "digits \<equiv> plus_of Digit"

definition hm_loose :: rx where
  "hm_loose = seqs [digits, Lit ''h'', spaces, digits, Lit ''m'']"

definition duration_patterns :: "rx list" where
  "duration_patterns =
     [Grp 1 (seqs [digits_1_2, Lit '':'', digits_2, Lit '':'', digits_2]),
      Grp 1 (seqs [digits_1_2, Lit ''h'', spaces, digits_1_2, Lit ''m'', spaces, digits_1_2, Lit ''s'']),
      Grp 1 (seqs [digits_1_2, Lit ''h'', spaces, digits_1_2, Lit ''m'']),
      Grp 1 (seqs [digits_1_2, Lit '':'', digits_2]),
      seqs [Grp 1 (Rep Digit 1 (Some 3) True), spaces, Lit ''minute'', opt_chr CHR ''s''],
      seqs [Lit ''runs for approximately '', Grp 1 hm_loose],
      seqs [Lit ''runs for approximately '', Grp 1 (seqs [digits, Lit ''h''])],
      seqs [Lit ''movie runs for approximately '', Grp 1 hm_loose],
      seqs [Lit ''movie runs for approximately '', Grp 1 (seqs [digits, Lit ''m''])],
      seqs [Lit ''duration'', lazy_star_of Dot, Grp 1 hm_loose],
      seqs [Lit ''duration'', lazy_star_of Dot, Grp 1 (seqs [digits, Lit ''h''])],
      seqs [Lit ''duration'', lazy_star_of Dot, Grp 1 (seqs [digits, Lit ''m''])],
      seqs [Grp 1 hm_loose, spaces, Lit ''long''],
      seqs [Grp 1 (seqs [digits, Lit ''h'']), spaces, Lit ''long''],
      seqs [Grp 1 (seqs [digits, Lit ''m'']), spaces, Lit ''long'']]"

text \<open>
  The two \<open>re.sub\<close> normalisations \<open>([0-9]+)H([0-9]+)M\<close> and \<open>([0-9]+)h([0-9]+)m\<close>
  with template \<open>\1h \2m\<close>.
\<close>

definition hm_tight :: "char \<Rightarrow> char \<Rightarrow> rx" where
  "hm_tight h m =
     seqs [Grp 1 (plus_of (OneOf digit_chars)), Lit [h], Grp 2 (plus_of (OneOf digit_chars)), Lit [m]]"

definition normalize_hm :: "string \<Rightarrow> string" where
  "normalize_hm duration =
     re_sub (hm_tight CHR ''h'' CHR ''m'') (\<lambda>a b. a @ ''h '' @ b @ ''m'')
       (re_sub (hm_tight CHR ''H'' CHR ''M'') (\<lambda>a b. a @ ''h '' @ b @ ''m'') duration)"

definition clock_text :: "string \<Rightarrow> string option" where
  "clock_text duration =
     (case split_chr CHR '':'' duration of
        [h, m, s] \<Rightarrow>
          (let hours = int_of_digits h; minutes = int_of_digits m; seconds = int_of_digits s
           in if hours > 0
              then Some (str_int hours @ ''h '' @ str_int minutes @ ''m '' @ str_int seconds @ ''s'')
              else Some (str_int minutes @ ''m '' @ str_int seconds @ ''s''))
      | [m, s] \<Rightarrow> Some (str_int (int_of_digits m) @ ''m '' @ str_int (int_of_digits s) @ ''s'')
      | _ \<Rightarrow> None)"

fun duration_loop :: "string \<Rightarrow> rx list \<Rightarrow> pydict \<Rightarrow> pydict" where
  "duration_loop html_content [] result = result"
| "duration_loop html_content (pattern # rest) result =
     (case search_group True pattern 1 html_content of
        None \<Rightarrow> duration_loop html_content rest result
      | Some duration \<Rightarrow>
          if \<not> (duration = ''0m'' \<or> duration = ''0h'' \<or> contains duration ''348h'')
          then (if CHR '':'' \<in> set duration
                then (case clock_text duration of
                        Some text \<Rightarrow> dset result ''duration'' (PStr text)
                      | None \<Rightarrow> result)
                else dset result ''duration'' (PStr (normalize_hm duration)))
          else duration_loop html_content rest result)"

definition extract_duration :: "string \<Rightarrow> pydict \<Rightarrow> pydict" where
  "extract_duration html_content result =
     (if contains (py_lower html_content) ''nasoor'' \<and> contains (py_lower html_content) ''gujarati''
      then dset result ''duration'' (PStr ''1h 53m'')
      else duration_loop html_content duration_patterns result)"


subsection \<open>Year, language, genre, episode count, posters\<close>

definition group_text :: "captures \<Rightarrow> nat \<Rightarrow> string" where
  "group_text caps k = (case map_of caps k of None \<Rightarrow> [] | Some g \<Rightarrow> g)"

abbreviation letters :: rx where
  "letters \<equiv> plus_of (OneOf (ascii_upper @ ascii_lower))"

definition year_patterns :: "rx list" where
  "year_patterns =
     [seqs [Lit ''released in '', Grp 1 (Rep Digit 4 (Some 4) True)],
      seqs [Grp 1 (Rep Digit 4 (Some 4) True), Lit '' movie''],
      Grp 1 (Rep Digit 4 (Some 4) True)]"

fun year_loop :: "string \<Rightarrow> rx list \<Rightarrow> pydict \<Rightarrow> pydict" where
  "year_loop html_content [] result = result"
| "year_loop html_content (pattern # rest) result =
     (case search_group False pattern 1 html_content of
        None \<Rightarrow> year_loop html_content rest result
      | Some year \<Rightarrow>
          if 1900 \<le> int_of_digits year \<and> int_of_digits year \<le> 2030
          then dset result ''yearOfRelease'' (PInt (int_of_digits year))
          else year_loop html_content rest result)"

definition lang_patterns :: "rx list" where
  "lang_patterns =
     [seqs [Lit ''Available in'', spaces, Grp 1 letters],
      seqs [Lit ''language'', lazy_star_of Dot, Grp 1 letters],
      seqs [Grp 1 letters, spaces, Lit ''language'']]"

fun lang_loop :: "string \<Rightarrow> rx list \<Rightarrow> pydict \<Rightarrow> pydict" where
  "lang_loop html_content [] result = result"
| "lang_loop html_content (pattern # rest) result =
     (case search_group False pattern 1 html_content of
        None \<Rightarrow> lang_loop html_content rest result
      | Some lang \<Rightarrow>
          if length lang > 2
          then dset result ''dialect'' (PStr (py_lower lang))
          else lang_loop html_content rest result)"

definition genre_patterns :: "rx list" where
  "genre_patterns =
     [seqs [Lit ''genre'', lazy_star_of Dot, Grp 1 letters],
      seqs [Grp 1 letters, spaces, Lit ''movie''],
      seqs [Lit ''compelling'', spaces, Grp 1 letters, spaces, Lit ''and'', spaces, Grp 2 letters,
            spaces, Lit ''movie'']]"

fun genre_loop :: "string \<Rightarrow> rx list \<Rightarrow> pydict \<Rightarrow> pydict" where
  "genre_loop html_content [] result = result"
| "genre_loop html_content (pattern # rest) result =
     (case re_search False pattern html_content of
        None \<Rightarrow> genre_loop html_content rest result
      | Some caps \<Rightarrow>
          if ngroups pattern = 2
          then dset result ''genre'' (PStr (group_text caps 1 @ '', '' @ group_text caps 2))
          else dset result ''genre'' (PStr (group_text caps 1)))"

definition episodes_word :: rx where
  "episodes_word = Seq (Lit ''episode'') (opt_chr CHR ''s'')"

definition json_count_patterns :: "rx list" where
  "json_count_patterns =
     [seqs [Grp 1 digits, spaces, episodes_word],
      seqs [Lit ''episode'', spaces, Grp 1 digits],
      seqs [Lit (dq # ''episodeCount'' @ [dq] @ '':''), spaces, Grp 1 digits],
      seqs [Lit (dq # ''numberOfEpisodes'' @ [dq] @ '':''), spaces, Grp 1 digits]]"

definition episode_patterns :: "rx list" where
  "episode_patterns =
     json_count_patterns @
     [seqs [Lit ''season'', spaces, digits, lazy_star_of Dot, Grp 1 digits, spaces, episodes_word]]"

text \<open>
  The loop \<open>for pattern in patterns: match = re.search(...); if match: return/assign
  int(match.group(1))\<close>, shared by Layer A and \<open>extract_episode_count\<close>; group 1 is a
  run of digits, so \<open>int\<close> does not raise.
\<close>

fun first_count :: "string \<Rightarrow> rx list \<Rightarrow> int option" where
  "first_count text [] = None"
| "first_count text (pattern # rest) =
     (case search_group True pattern 1 text of
        None \<Rightarrow> first_count text rest
      | Some n \<Rightarrow> Some (int_of_digits n))"

definition extract_episodes :: "string \<Rightarrow> pydict \<Rightarrow> pydict" where
  "extract_episodes html_content result =
     (if dget result ''type'' = PStr ''series''
      then (case first_count html_content episode_patterns of
              None \<Rightarrow> result
            | Some n \<Rightarrow> dset result ''episode_count'' (PInt n))
      else result)"

definition image_ext :: "nat \<Rightarrow> rx" where
  "image_ext k = Grp k (alts (Lit ''webp'') [Lit ''jpg'', Lit ''jpeg''])"

definition episode_poster :: "string \<Rightarrow> rx" where
  "episode_poster orientation =
     Grp 1 (seqs [Lit (''https://media.stage.in/episode/'' @ orientation @ ''/''),
                  star_of (NoneOf [dq]), Lit ''.'', image_ext 2])"

definition extract_thumbnails :: "string \<Rightarrow> pydict \<Rightarrow> pydict" where
  "extract_thumbnails html_content result =
     (let result = (case search_group False (episode_poster ''horizontal'') 1 html_content of
                      None \<Rightarrow> result
                    | Some u \<Rightarrow> dset result ''horizontalThumbnail'' (PStr u))
      in case search_group False (episode_poster ''vertical'') 1 html_content of
           None \<Rightarrow> result
         | Some u \<Rightarrow> dset result ''verticalThumbnail'' (PStr u))"

subsection \<open>The extractor\<close>

text \<open>
  \<open>extract_embedded_data\<close> takes the page text and what \<open>BeautifulSoup\<close> makes of it
  (\<open>Inl\<close> when the parser raises: the handler then returns the empty dictionary).
\<close>

definition extract_embedded_data :: "string + soup \<Rightarrow> string \<Rightarrow> pydict" where
  "extract_embedded_data parsed html_content =
     (case parsed of
        Inl e \<Rightarrow> []
      | Inr sp \<Rightarrow>
          (let result = classify_type html_content [];
               result = title_loop sp title_selectors result;
               result = desc_loop sp desc_selectors result;
               result = extract_duration html_content result;
               result = year_loop html_content year_patterns result;
               result = lang_loop html_content lang_patterns result;
               result = genre_loop html_content genre_patterns result;
               result = extract_episodes html_content result
           in extract_thumbnails html_content result))"

text \<open>\<open>find_movie_data\<close>: the dictionary itself, or one nested one level down.\<close>

definition content_types :: "pyval list" where
  "content_types = [PStr ''movie'', PStr ''individual'', PStr ''series'']"

definition is_content :: "pyval \<Rightarrow> bool" where
  "is_content v = (case v of PDict d \<Rightarrow> dget d ''type'' \<in> set content_types | _ \<Rightarrow> False)"

fun find_nested :: "pydict \<Rightarrow> pyval" where
  "find_nested [] = PDict []"
| "find_nested ((key, val) # rest) =
     (if is_content val then val
      else (case val of
              PList items \<Rightarrow>
                (case List.find is_content items of Some item \<Rightarrow> item | None \<Rightarrow> find_nested rest)
            | _ \<Rightarrow> find_nested rest))"

definition find_movie_data :: "pyval \<Rightarrow> pyval" where
  "find_movie_data data =
     (case data of
        PDict d \<Rightarrow> if is_content data then data else find_nested d
      | _ \<Rightarrow> PDict [])"


section \<open>Duration conversion: \<open>convert_duration\<close>\<close>

text \<open>
  \<open>isodate.parse_duration\<close> is a library outside the repository: \<open>parse_duration s\<close>
  is the parsed duration's \<open>total_seconds()\<close>, or \<open>None\<close> when the library raises.
  A value that is not a string makes the library raise as well; the bare \<open>except\<close> then
  returns the input.
\<close>

type_synonym iso_parser = "string \<Rightarrow> rat option"

definition convert_duration :: "iso_parser \<Rightarrow> pyval \<Rightarrow> pyval" where
  "convert_duration parse_duration iso_duration =
     (if \<not> truthy iso_duration then PNone
      else (case iso_duration of
              PStr s \<Rightarrow>
                (case parse_duration s of
                   None \<Rightarrow> iso_duration
                 | Some total_seconds \<Rightarrow>
                     (let total_minutes = \<lfloor>total_seconds / 60\<rfloor>;
                          hours = total_minutes div 60;
                          minutes = total_minutes mod 60
                      in PStr (format_hm hours minutes)))
            | _ \<Rightarrow> iso_duration))"

section \<open>Layer B: \<open>extract_from_next_data\<close>, \<open>detect_posters\<close>\<close>

definition quoted :: "string \<Rightarrow> string" where
  "quoted s = dq # s @ [dq]"

definition is_movie_item :: "pyval \<Rightarrow> bool" where
  "is_movie_item item = (case item of PDict i \<Rightarrow> dget i ''type'' = PStr ''movie'' | _ \<Rightarrow> False)"

fun find_content :: "pyval list \<Rightarrow> pyval \<Rightarrow> pyval" where
  "find_content [] content_data = content_data"
| "find_content (source # rest) content_data =
     (case source of
        PDict d \<Rightarrow>
          (let content_data =
                 (case map_of d ''content'' of
                    Some (PList items) \<Rightarrow>
                      (case List.find is_movie_item items of
                         Some item \<Rightarrow> item
                       | None \<Rightarrow> content_data)
                  | _ \<Rightarrow> content_data)
           in if dget d ''type'' = PStr ''movie'' \<or> dget d ''type'' = PStr ''show''
              then source
              else find_content rest content_data)
      | _ \<Rightarrow> find_content rest content_data)"

text \<open>
  The regex fallback.  Each pattern is kept with its source text, because the program
  derives the field to fill from the text: \<open>field_name = pattern.split('"')[1]\<close>.
\<close>

definition movie_prefix :: string where
  "movie_prefix = quoted ''type'' @ '':'' @ quoted ''movie''"

definition movie_field_rx :: "string \<Rightarrow> rx \<Rightarrow> rx" where
  "movie_field_rx field val =
     seqs [Lit movie_prefix, star_of (NoneOf ''}''), Lit (quoted field @ '':''), val]"

definition quoted_value :: rx where
  "quoted_value = seqs [Lit [dq], Grp 1 (plus_of (NoneOf [dq])), Lit [dq]]"

definition movie_patterns :: "(string \<times> rx) list" where
  "movie_patterns =
     [(movie_prefix @ ''[^}]*'' @ quoted ''title'' @ '':'' @ quoted (''([^'' @ [dq] @ '']+)''),
       movie_field_rx ''title'' quoted_value),
      (movie_prefix @ ''[^}]*'' @ quoted ''description'' @ '':'' @ quoted (''([^'' @ [dq] @ '']+)''),
       movie_field_rx ''description'' quoted_value),
      (movie_prefix @ ''[^}]*'' @ quoted ''yearOfRelease'' @ '':('' @ [backslash] @ ''d+)'',
       movie_field_rx ''yearOfRelease'' (Grp 1 digits)),
      (movie_prefix @ ''[^}]*'' @ quoted ''duration'' @ '':('' @ [backslash] @ ''d+)'',
       movie_field_rx ''duration'' (Grp 1 digits)),
      (movie_prefix @ ''[^}]*'' @ quoted ''dialect'' @ '':'' @ quoted (''([^'' @ [dq] @ '']+)''),
       movie_field_rx ''dialect'' quoted_value)]"

definition fill_field :: "string \<Rightarrow> string \<Rightarrow> pydict \<Rightarrow> pydict" where
  "fill_field field_name g extracted =
     (if field_name = ''title'' then dset extracted ''title'' (PStr g)
      else if field_name = ''description''
           then dset extracted ''description'' (PStr (unescape_newlines g))
      else if field_name = ''yearOfRelease'' then dset extracted ''release_date'' (PStr g)
      else if field_name = ''duration''
           then dset extracted ''duration'' (PStr (seconds_to_text (int_of_digits g)))
      else if field_name = ''dialect'' then dset extracted ''languages'' (PStr (py_title g))
      else extracted)"

fun movie_pattern_loop :: "string \<Rightarrow> (string \<times> rx) list \<Rightarrow> pydict \<Rightarrow> pydict" where
  "movie_pattern_loop json_text [] extracted = extracted"
| "movie_pattern_loop json_text ((source_text, pattern) # rest) extracted =
     movie_pattern_loop json_text rest
       (case re_search False pattern json_text of
          None \<Rightarrow> extracted
        | Some caps \<Rightarrow> fill_field (split_chr dq source_text ! 1) (group_text caps 1) extracted)"

text \<open>
  Reading the content object.  A step that raises (\<open>//\<close> on a value that is not a
  number, \<open>.title()\<close> on a value that is not a string) ends the extraction: the handler
  returns what was extracted so far.  \<open>None\<close> stands for the raise.
\<close>

definition duration_step :: "pydict \<Rightarrow> pydict \<Rightarrow> pydict option" where
  "duration_step content_data extracted =
     (if \<not> truthy (dget extracted ''duration'')
      then (let duration_seconds = dget content_data ''duration''
            in if truthy duration_seconds
               then (case duration_seconds of
                       PInt n \<Rightarrow> Some (dset extracted ''duration'' (PStr (seconds_to_text n)))
                     | PBool b \<Rightarrow>
                         Some (dset extracted ''duration'' (PStr (seconds_to_text (if b then 1 else 0))))
                     | _ \<Rightarrow> None)
               else Some extracted)
      else Some extracted)"

definition languages_step :: "pydict \<Rightarrow> pydict \<Rightarrow> pydict option" where
  "languages_step content_data extracted =
     (if \<not> truthy (dget extracted ''languages'')
      then (case dget_or content_data ''dialect'' (PStr []) of
              PStr s \<Rightarrow> Some (dset extracted ''languages'' (PStr (py_title s)))
            | _ \<Rightarrow> None)
      else Some extracted)"

definition from_content_data :: "pydict \<Rightarrow> pydict \<Rightarrow> pydict" where
  "from_content_data content_data extracted =
     (let extracted = (if \<not> truthy (dget extracted ''title'')
                       then dset extracted ''title'' (dget content_data ''title'') else extracted);
          extracted = (if \<not> truthy (dget extracted ''description'')
                       then dset extracted ''description'' (dget content_data ''description'')
                       else extracted);
          extracted = (if \<not> truthy (dget extracted ''release_date'')
                       then dset extracted ''release_date''
                              (PStr (py_str (dget_or content_data ''yearOfRelease'' (PStr []))))
                       else extracted)
      in case duration_step content_data extracted of
           None \<Rightarrow> extracted
         | Some extracted \<Rightarrow>
             (case languages_step content_data extracted of
                None \<Rightarrow> extracted
              | Some extracted \<Rightarrow>
                  if \<not> truthy (dget extracted ''genre'')
                  then dset extracted ''genre'' (dget content_data ''genre'')
                  else extracted))"

definition extract_from_next_data :: "pyval \<Rightarrow> pydict" where
  "extract_from_next_data next_json =
     (case py_get next_json ''props'' (PDict []) of
        None \<Rightarrow> []
      | Some props \<Rightarrow>
          (case py_get props ''pageProps'' (PDict []) of
             None \<Rightarrow> []
           | Some page_props \<Rightarrow>
               (case (page_props, next_json) of
                  (PDict pp, PDict nj) \<Rightarrow>
                    (let data_sources =
                           [dget_or pp ''data'' (PDict []), dget_or pp ''content'' (PDict []),
                            dget_or pp ''movie'' (PDict []), dget_or pp ''series'' (PDict []),
                            dget_or pp ''episode'' (PDict []), dget_or nj ''query'' (PDict [])];
                         content_data = find_content data_sources PNone;
                         extracted = (if \<not> truthy content_data
                                      then movie_pattern_loop (json_dumps next_json) movie_patterns []
                                      else [])
                     in case content_data of
                          PDict cd \<Rightarrow> if cd \<noteq> [] then from_content_data cd extracted else extracted
                        | _ \<Rightarrow> extracted)
                | _ \<Rightarrow> [])))"

text \<open>
  \<open>detect_posters\<close>: \<open>re.findall\<close> returns the text of group 1 of each match (every
  pattern has exactly one group), and the program takes the first.
\<close>

definition media_url :: "string \<Rightarrow> rx" where
  "media_url keyword =
     seqs [Lit ''https://media.stage.in/'', star_of (NoneOf [dq, sq]), Lit keyword,
           star_of (NoneOf [dq]), Lit ''.'', image_ext 1]"

definition named_field :: "string \<Rightarrow> rx" where
  "named_field name = Seq (Lit (quoted name @ '':'')) quoted_value"

definition landscape_patterns :: "rx list" where
  "landscape_patterns =
     [media_url ''horizontal'', media_url ''landscape'', media_url ''wide'',
      named_field ''horizontalThumbnail'', named_field ''largeThumbnail'']"

definition portrait_patterns :: "rx list" where
  "portrait_patterns =
     [media_url ''vertical'', media_url ''portrait'', media_url ''tall'',
      named_field ''verticalThumbnail'']"

fun first_group :: "string \<Rightarrow> rx list \<Rightarrow> pyval" where
  "first_group media [] = PNone"
| "first_group media (pattern # rest) =
     (case search_group False pattern 1 media of
        None \<Rightarrow> first_group media rest
      | Some g \<Rightarrow> PStr g)"

definition clean_poster :: "pyval \<Rightarrow> pyval" where
  "clean_poster v =
     (case v of
        PStr s \<Rightarrow> if s \<noteq> [] \<and> startswith s [dq] then PStr (strip_chr dq s) else v
      | _ \<Rightarrow> v)"

definition detect_posters :: "pyval \<Rightarrow> pyval \<times> pyval" where
  "detect_posters next_json =
     (let media = json_dumps next_json
      in (clean_poster (first_group media landscape_patterns),
          clean_poster (first_group media portrait_patterns)))"

section \<open>Layer C: \<open>extract_from_ld_json\<close>\<close>

definition upload_date :: "pydict \<Rightarrow> pyval option" where
  "upload_date ld =
     (if truthy (dget ld ''uploadDate'')
      then (case dget_or ld ''uploadDate'' (PStr []) of
              PStr s \<Rightarrow> Some (PStr (takeWhile (\<lambda>c. c \<noteq> CHR ''T'') s))
            | _ \<Rightarrow> None)
      else Some PNone)"

definition extract_from_ld_json :: "iso_parser \<Rightarrow> pyval \<Rightarrow> pydict" where
  "extract_from_ld_json parse_duration ld_data =
     (let ld_data = (case ld_data of
                       PList xs \<Rightarrow> (case xs of [] \<Rightarrow> PDict [] | x # _ \<Rightarrow> x)
                     | _ \<Rightarrow> ld_data)
      in case ld_data of
           PDict ld \<Rightarrow>
             (let extracted = dset [] ''title'' (dget ld ''name'');
                  extracted = dset extracted ''description'' (dget ld ''description'')
              in case upload_date ld of
                   None \<Rightarrow> extracted
                 | Some d \<Rightarrow>
                     (let extracted = dset extracted ''release_date'' d;
                          extracted = dset extracted ''duration''
                                        (convert_duration parse_duration (dget ld ''duration''));
                          extracted = dset extracted ''genre'' (dget ld ''genre'')
                      in dset extracted ''languages'' (dget ld ''inLanguage'')))
         | _ \<Rightarrow> [])"

section \<open>Classifier and episode count over the JSON text\<close>

definition json_series_indicators :: "string list" where
  "json_series_indicators =
     [''episode'', ''episodes'', ''season'', ''seasons'', ''series'', ''web series'']"

definition detect_content_type :: "pyval \<Rightarrow> pyval \<Rightarrow> string" where
  "detect_content_type next_json ld_data =
     (let json_text = json_dumps next_json @ json_dumps ld_data in
      if list_ex (\<lambda>pattern. re_search True (Lit pattern) json_text \<noteq> None) url_path_indicators
      then ''Series''
      else if re_search True (Lit ''/movie/'') json_text \<noteq> None then ''Movie''
      else if length (filter (\<lambda>indicator. contains (py_lower json_text) (py_lower indicator))
                        json_series_indicators) \<ge> 3
      then ''Series''
      else ''Movie'')"

definition extract_episode_count :: "pyval \<Rightarrow> pyval \<Rightarrow> pyval" where
  "extract_episode_count next_json ld_data =
     (case first_count (json_dumps next_json @ json_dumps ld_data) json_count_patterns of
        None \<Rightarrow> PNone
      | Some n \<Rightarrow> PInt n)"


section \<open>The engine: \<open>get_stage_identity\<close>\<close>

text \<open>
  The collaborators outside the repository.  \<open>fetch url\<close> is
  \<open>session.get(url, timeout=30)\<close> followed by \<open>raise_for_status()\<close> and \<open>.text\<close>:
  \<open>Inl msg\<close> when any of them raises (timeout, connection error, non-success status),
  with \<open>msg\<close> the text of the exception.  \<open>make_soup\<close> is
  \<open>BeautifulSoup(html_content, "html.parser")\<close>, \<open>Inl msg\<close> when the parser raises.
\<close>

record env =
  fetch :: "string \<Rightarrow> string + string"
  make_soup :: "string \<Rightarrow> string + soup"
  iso_parse :: iso_parser

text \<open>An exception inside the \<open>try\<close> block is \<open>Inl\<close> of its message.\<close>

definition type_name :: "pyval \<Rightarrow> string" where
  "type_name v =
     (case v of PNone \<Rightarrow> ''NoneType'' | PBool b \<Rightarrow> ''bool'' | PInt i \<Rightarrow> ''int''
      | PStr s \<Rightarrow> ''str'' | PList xs \<Rightarrow> ''list'' | PDict d \<Rightarrow> ''dict'')"

definition attribute_error :: "pyval \<Rightarrow> string \<Rightarrow> string" where
  "attribute_error v attr =
     [sq] @ type_name v @ [sq] @ '' object has no attribute '' @ [sq] @ attr @ [sq]"

definition str_method :: "(string \<Rightarrow> string) \<Rightarrow> string \<Rightarrow> pyval \<Rightarrow> string + pyval" where
  "str_method f name v =
     (case v of PStr s \<Rightarrow> Inr (PStr (f s)) | _ \<Rightarrow> Inl (attribute_error v name))"

definition initial_result :: "pyval \<Rightarrow> string \<Rightarrow> pydict" where
  "initial_result stage_id url =
     [(''stage_id'', stage_id), (''type'', PNone), (''title'', PNone), (''description'', PNone),
      (''release_date'', PNone), (''duration'', PNone), (''genre'', PNone), (''languages'', PNone),
      (''episode_count'', PNone), (''landscape_poster'', PNone), (''portrait_poster'', PNone),
      (''url'', PStr url), (''success'', PBool False)]"

definition failure_record :: "string \<Rightarrow> string \<Rightarrow> pydict" where
  "failure_record url msg = initial_result PNone url @ [(''error'', PStr msg)]"

definition apply_movie_data :: "pydict \<Rightarrow> pydict \<Rightarrow> pydict \<Rightarrow> string + pydict" where
  "apply_movie_data embedded_data movie_data result =
     (let result = dset result ''title'' (dget movie_data ''title'') in
      case str_method unescape_newlines ''replace'' (dget_or movie_data ''description'' (PStr [])) of
        Inl e \<Rightarrow> Inl e
      | Inr description \<Rightarrow>
     (let result = dset result ''description'' description;
          result = dset result ''release_date''
                     (PStr (py_str (dget_or movie_data ''yearOfRelease'' (PStr []))))
      in
      case str_method py_title ''title'' (dget_or movie_data ''dialect'' (PStr [])) of
        Inl e \<Rightarrow> Inl e
      | Inr languages \<Rightarrow>
     (let result = dset result ''languages'' languages;
          duration_seconds = dget movie_data ''duration'';
          result = (if truthy duration_seconds
                    then (case duration_seconds of
                            PInt n \<Rightarrow> dset result ''duration'' (PStr (seconds_to_text n))
                          | PBool b \<Rightarrow>
                              dset result ''duration'' (PStr (seconds_to_text (if b then 1 else 0)))
                          | _ \<Rightarrow> dset result ''duration'' duration_seconds)
                    else result);
          result = dset result ''landscape_poster'' (dget movie_data ''horizontalThumbnail'');
          result = dset result ''portrait_poster'' (dget movie_data ''verticalThumbnail'')
      in
      case map_of embedded_data ''type'' of
        None \<Rightarrow> Inr result
      | Some t \<Rightarrow>
          (case str_method py_title ''title'' t of
             Inl e \<Rightarrow> Inl e
           | Inr ty \<Rightarrow> Inr (dset result ''type'' ty)))))"

definition layer_a :: "pydict \<Rightarrow> pydict \<Rightarrow> string + pydict" where
  "layer_a embedded_data result =
     (if embedded_data \<noteq> []
      then (case find_movie_data (PDict embedded_data) of
              PDict movie_data \<Rightarrow>
                if movie_data \<noteq> [] then apply_movie_data embedded_data movie_data result
                else Inr result
            | _ \<Rightarrow> Inr result)
      else Inr result)"

text \<open>
  The two merge loops: \<open>if value: result[key] = value\<close> for the Next.js data, and
  \<open>if value and not result.get(key): result[key] = value\<close> for the JSON-LD data.
\<close>

definition merge_next :: "pydict \<Rightarrow> pydict \<Rightarrow> pydict" where
  "merge_next next_extracted result =
     foldl (\<lambda>result (key, val). if truthy val then dset result key val else result)
           result next_extracted"

definition merge_ld :: "pydict \<Rightarrow> pydict \<Rightarrow> pydict" where
  "merge_ld ld_extracted result =
     foldl (\<lambda>result (key, val).
              if truthy val \<and> \<not> truthy (dget result key) then dset result key val else result)
           result ld_extracted"

definition fallback_layers :: "iso_parser \<Rightarrow> soup \<Rightarrow> pydict \<Rightarrow> pydict" where
  "fallback_layers parse_duration sp result =
     (let (next_json, next_extracted, result) =
            (case next_data sp of
               Some (Some v) \<Rightarrow>
                 (v, extract_from_next_data v,
                  dset (dset result ''landscape_poster'' (fst (detect_posters v)))
                       ''portrait_poster'' (snd (detect_posters v)))
             | _ \<Rightarrow> (PDict [], [], result));
          (ld_data, ld_extracted) =
            (case ld_json sp of
               Some (Some v) \<Rightarrow> (v, extract_from_ld_json parse_duration v)
             | _ \<Rightarrow> (PDict [], []));
          result = merge_next next_extracted result;
          result = merge_ld ld_extracted result;
          result = (if \<not> truthy (dget result ''type'')
                    then dset result ''type'' (PStr (detect_content_type next_json ld_data))
                    else result)
      in if dget result ''type'' = PStr ''Series''
         then dset result ''episode_count'' (extract_episode_count next_json ld_data)
         else result)"

definition clean_duration :: "iso_parser \<Rightarrow> pydict \<Rightarrow> pydict" where
  "clean_duration parse_duration result =
     (case dget result ''duration'' of
        PStr d \<Rightarrow>
          if d \<noteq> [] \<and> \<not> endswith d ''m'' \<and> \<not> endswith d ''h''
          then dset result ''duration'' (convert_duration parse_duration (PStr d))
          else result
      | _ \<Rightarrow> result)"

definition mark_success :: "pydict \<Rightarrow> pydict" where
  "mark_success result =
     (if truthy (dget result ''title'') \<or> truthy (dget result ''stage_id'')
      then dset result ''success'' (PBool True) else result)"

definition stage_id_value :: "string \<Rightarrow> pyval" where
  "stage_id_value url = (case extract_stage_id url of None \<Rightarrow> PNone | Some i \<Rightarrow> PStr i)"

text \<open>
  What follows the Layer A scan in the \<open>try\<close> block: the embedded data is applied, the
  fallback layers run when no title came out of it, then duration clean-up and the success
  flag.  \<open>parsed\<close> is the result of \<open>BeautifulSoup(html_content, "html.parser")\<close>,
  which the fallback calls again.
\<close>

definition assemble :: "iso_parser \<Rightarrow> string + soup \<Rightarrow> pydict \<Rightarrow> pydict \<Rightarrow> string + pydict" where
  "assemble parse_duration parsed embedded_data result =
     (case layer_a embedded_data result of
        Inl e \<Rightarrow> Inl e
      | Inr result \<Rightarrow>
          if \<not> truthy (dget result ''title'')
          then (case parsed of
                  Inl e \<Rightarrow> Inl e
                | Inr sp \<Rightarrow>
                    Inr (mark_success (clean_duration parse_duration
                           (fallback_layers parse_duration sp result))))
          else Inr (mark_success (clean_duration parse_duration
                      (if map_of result ''type'' = None
                       then dset result ''type'' (PStr ''Movie'') else result))))"

text \<open>The body of the \<open>try\<close> block, and the function with its handler.\<close>

definition identity_body :: "env \<Rightarrow> string \<Rightarrow> string + pydict" where
  "identity_body env url =
     (case fetch env url of
        Inl e \<Rightarrow> Inl e
      | Inr html_content \<Rightarrow>
          assemble (iso_parse env) (make_soup env html_content)
            (extract_embedded_data (make_soup env html_content) html_content)
            (initial_result (stage_id_value url) url))"

definition get_stage_identity :: "env \<Rightarrow> string \<Rightarrow> pydict" where
  "get_stage_identity env url =
     (case identity_body env url of
        Inl e \<Rightarrow> failure_record url e
      | Inr result \<Rightarrow> result)"


section \<open>Auxiliary notions for the proofs\<close>

text \<open>
  What \<open>stage_id_rx\<close> matches at a fixed position: a hyphen, the maximal run of digits,
  and then the end of the text or its final newline.
\<close>

definition id_at :: "string \<Rightarrow> string option" where
  "id_at r = (case r of [] \<Rightarrow> None
     | x # r1 \<Rightarrow> if x = CHR ''-'' \<and> takeWhile is_digit r1 \<noteq> [] \<and>
                   (dropWhile is_digit r1 = [] \<or> dropWhile is_digit r1 = [newline])
                then Some (takeWhile is_digit r1) else None)"

fun id_search :: "string \<Rightarrow> string option" where
  "id_search [] = None"
| "id_search (y # ys) = (case id_at (y # ys) of Some d \<Rightarrow> Some d | None \<Rightarrow> id_search ys)"

text \<open>The matcher state after the digit group has consumed \<open>k\<close> characters.\<close>

definition digits_state :: "string \<Rightarrow> nat \<Rightarrow> mstate" where
  "digits_state r k = (Some (r ! (k - 1)), drop k r, [(1, take k r)])"


section \<open>Properties of the identifier extraction\<close>

lemma not_digit_newline: "\<not> is_digit newline"
  by (simp add: is_digit_def newline_def digit_chars_def)

lemma drop_in_run:
  assumes "k < length (takeWhile P xs)"
  shows "drop k xs \<noteq> [] \<and> P (hd (drop k xs))"
proof -
  have "k < length xs" using assms by (meson length_takeWhile_le less_le_trans)
  have "xs ! k = takeWhile P xs ! k" using assms by (simp add: takeWhile_nth)
  moreover have "P (takeWhile P xs ! k)" using assms by (meson nth_mem set_takeWhileD)
  ultimately show ?thesis using \<open>k < length xs\<close> by (simp add: hd_drop_conv_nth)
qed

lemma drop_run: "drop (length (takeWhile P xs)) xs = dropWhile P xs"
  by (metis append_eq_conv_conj takeWhile_dropWhile_id)

lemma take_run: "take (length (takeWhile P xs)) xs = takeWhile P xs"
  by (metis append_eq_conv_conj takeWhile_dropWhile_id)

lemma greedy_tail_end:
  "concat (map (\<lambda>k. if drop k r = [] \<or> drop k r = [newline] then [f k] else [])
               (rev [1..<Suc (length (takeWhile is_digit r))])) =
   (if takeWhile is_digit r \<noteq> [] \<and> (dropWhile is_digit r = [] \<or> dropWhile is_digit r = [newline])
    then [f (length (takeWhile is_digit r))] else [])"
proof -
  let ?n = "length (takeWhile is_digit r)"
  let ?g = "\<lambda>k. if drop k r = [] \<or> drop k r = [newline] then [f k] else []"
  have small: "?g k = []" if "k < ?n" for k
  proof -
    from drop_in_run[OF that] have "drop k r \<noteq> []" "is_digit (hd (drop k r))" by auto
    then show ?thesis using not_digit_newline by (cases "drop k r") auto
  qed
  have rest: "concat (map ?g (rev [1..<?n])) = []"
    using small by (simp add: concat_eq_Nil_conv)
  show ?thesis
  proof (cases "?n = 0")
    case True then show ?thesis by simp
  next
    case False
    then have pos: "Suc 0 \<le> ?n" by (simp add: Suc_le_eq)
    then have eq: "rev [1..<Suc ?n] = ?n # rev [1..<?n]" by simp
    have nonempty: "takeWhile is_digit r \<noteq> []" using False by simp
    show ?thesis
      unfolding eq list.map concat.simps rest append_Nil2 drop_run
      by (simp only: nonempty simp_thms)
  qed
qed

lemma end_anchor_tail:
  "rx_match ic (Seq EndAnchor (Lit [])) st =
     (if fst (snd st) = [] \<or> fst (snd st) = [newline] then [st] else [])"
  by (cases st) simp

lemma grp_digits:
  "rx_match False (Grp 1 (plus_of Digit)) (p, r, []) =
     map (digits_state r) (rev [1..<Suc (length (takeWhile is_digit r))])"
proof -
  have len: "length (takeWhile is_digit r) \<le> length r" by (rule length_takeWhile_le)
  have "(\<lambda>x. is_digit x) = is_digit" by simp
  have cls: "cls_ok False Digit = is_digit" by (rule ext) simp
  show ?thesis
    using len
    by (simp add: rep_results_def cls after_chars_def digits_state_def comp_def rev_map[symmetric]
        min_def split_def del: upt_Suc)
qed

lemma end_after_digits:
  "rx_match False (Seq EndAnchor (Lit [])) (digits_state r k) =
     (if drop k r = [] \<or> drop k r = [newline] then [digits_state r k] else [])"
  unfolding end_anchor_tail by (simp add: digits_state_def)

lemma grp_digits_end:
  "rx_match False (Seq (Grp 1 (plus_of Digit)) (Seq EndAnchor (Lit []))) (p, r, []) =
     (if takeWhile is_digit r \<noteq> [] \<and> (dropWhile is_digit r = [] \<or> dropWhile is_digit r = [newline])
      then [digits_state r (length (takeWhile is_digit r))] else [])"
proof -
  let ?E = "Seq EndAnchor (Lit [])"
  have "rx_match False (Seq (Grp 1 (plus_of Digit)) ?E) (p, r, []) =
        concat (map (rx_match False ?E) (rx_match False (Grp 1 (plus_of Digit)) (p, r, [])))"
    by (rule rx_match.simps(3))
  also have "\<dots> = concat (map (\<lambda>k. if drop k r = [] \<or> drop k r = [newline]
                                     then [digits_state r k] else [])
                             (rev [1..<Suc (length (takeWhile is_digit r))]))"
    by (simp only: grp_digits map_map comp_def end_after_digits)
  finally show ?thesis by (simp only: greedy_tail_end)
qed

lemma match_stage_id:
  "map (\<lambda>(p, r, c). map_of c 1) (rx_match False stage_id_rx (p, r, [])) =
   (case id_at r of None \<Rightarrow> [] | Some d \<Rightarrow> [Some d])"
proof (cases r)
  case Nil
  then show ?thesis by (simp add: stage_id_rx_def seqs_def id_at_def)
next
  case (Cons x r1)
  show ?thesis
  proof (cases "x = CHR ''-''")
    case True
    have step: "rx_match False stage_id_rx (p, r, []) =
          rx_match False (Seq (Grp 1 (plus_of Digit)) (Seq EndAnchor (Lit []))) (Some x, r1, [])"
      using Cons True by (simp add: stage_id_rx_def seqs_def chr_eq_def)
    show ?thesis unfolding step grp_digits_end using Cons True
      by (simp add: id_at_def digits_state_def take_run)
  next
    case False
    then show ?thesis using Cons by (simp add: stage_id_rx_def seqs_def id_at_def chr_eq_def)
  qed
qed



lemma id_at_Nil: "id_at [] = None"
  by (simp add: id_at_def)

lemma search_at_stage_id:
  "Option.bind (map_option (\<lambda>(pos, p, rest, caps). caps) (rx_search_at False stage_id_rx pos p s))
      (\<lambda>caps. map_of caps 1) = id_search s"
proof (induction s arbitrary: pos p)
  case Nil
  have "map (\<lambda>(p, r, c). map_of c 1) (rx_match False stage_id_rx (p, [], [])) = []"
    by (simp only: match_stage_id id_at_Nil option.case)
  then have "rx_match False stage_id_rx (p, [], []) = []" by simp
  then show ?case by simp
next
  case (Cons y ys)
  show ?case
  proof (cases "id_at (y # ys)")
    case None
    have "map (\<lambda>(p, r, c). map_of c 1) (rx_match False stage_id_rx (p, y # ys, [])) = []"
      by (simp only: match_stage_id None option.case)
    then have "rx_match False stage_id_rx (p, y # ys, []) = []" by simp
    then show ?thesis using None Cons.IH by simp
  next
    case (Some d)
    have m: "map (\<lambda>(p, r, c). map_of c 1) (rx_match False stage_id_rx (p, y # ys, [])) = [Some d]"
      by (simp only: match_stage_id Some option.case)
    then obtain st where st: "rx_match False stage_id_rx (p, y # ys, []) = [st]"
      by (cases "rx_match False stage_id_rx (p, y # ys, [])") auto
    with m have "(\<lambda>(p, r, c). map_of c 1) st = Some d" by simp
    then show ?thesis using st Some by (cases st) simp
  qed
qed

lemma extract_stage_id_search: "extract_stage_id url = id_search url"
  unfolding extract_stage_id_def search_group_def re_search_def by (rule search_at_stage_id)

lemma id_at_SomeD:
  assumes "id_at r = Some d"
  shows "d \<noteq> [] \<and> list_all is_digit d \<and> (r = CHR ''-'' # d \<or> r = CHR ''-'' # d @ [newline])"
proof -
  obtain x r1 where r: "r = x # r1" using assms by (cases r) (auto simp: id_at_def)
  from assms r have x: "x = CHR ''-''" and d: "d = takeWhile is_digit r1" and ne: "d \<noteq> []"
    and t: "dropWhile is_digit r1 = [] \<or> dropWhile is_digit r1 = [newline]"
    by (auto simp: id_at_def split: if_splits)
  have split: "r1 = d @ dropWhile is_digit r1" using d by simp
  from t have tail: "r1 = d \<or> r1 = d @ [newline]" using split by (metis append_Nil2)
  have "list_all is_digit d" using d by (simp add: list_all_iff) (meson set_takeWhileD)
  then show ?thesis using tail x r ne by auto
qed

lemma not_digit_hyphen: "\<not> is_digit (CHR ''-'')"
  by (simp add: is_digit_def digit_chars_def)

lemma id_at_hit:
  assumes "d \<noteq> []" "list_all is_digit d" "t = [] \<or> t = [newline]"
  shows "id_at (CHR ''-'' # d @ t) = Some d"
proof -
  have tw: "takeWhile is_digit (d @ t) = d" using assms not_digit_newline
    by (auto simp: list_all_iff takeWhile_append2)
  have dw: "dropWhile is_digit (d @ t) = t" using assms not_digit_newline
    by (auto simp: list_all_iff dropWhile_append2)
  show ?thesis
    using assms(1,3)
    apply (simp only: id_at_def list.case tw dw)
    apply simp
    done
qed

lemma id_at_miss:
  assumes "list_all is_digit d" "t = [] \<or> t = [newline]"
  shows "id_at (x # pre @ CHR ''-'' # d @ t) = None"
proof (rule ccontr)
  assume "id_at (x # pre @ CHR ''-'' # d @ t) \<noteq> None"
  then obtain d' where "id_at (x # pre @ CHR ''-'' # d @ t) = Some d'" by auto
  from id_at_SomeD[OF this] have
    "list_all is_digit d'" "pre @ CHR ''-'' # d @ t = d' \<or> pre @ CHR ''-'' # d @ t = d' @ [newline]"
    by auto
  then have "set (pre @ CHR ''-'' # d @ t) = set d' \<or>
             set (pre @ CHR ''-'' # d @ t) = set (d' @ [newline])"
    and dig: "\<forall>c\<in>set d'. is_digit c"
    by (metis, simp add: list_all_iff)
  then have "CHR ''-'' \<in> set d' \<union> {newline}" by auto
  then have "is_digit (CHR ''-'') \<or> CHR ''-'' = newline" using dig by auto
  then show False using not_digit_hyphen by (simp add: newline_def)
qed

lemma id_search_hit:
  assumes "d \<noteq> []" "list_all is_digit d" "t = [] \<or> t = [newline]"
  shows "id_search (pre @ CHR ''-'' # d @ t) = Some d"
proof (induction pre)
  case Nil
  show ?case using id_at_hit[OF assms] by simp
next
  case (Cons x pre)
  show ?case using id_at_miss[OF assms(2,3)] Cons by simp
qed

lemma id_search_SomeD:
  "id_search s = Some d \<Longrightarrow>
     d \<noteq> [] \<and> list_all is_digit d \<and> (\<exists>pre. s = pre @ CHR ''-'' # d \<or> s = pre @ CHR ''-'' # d @ [newline])"
proof (induction s)
  case Nil
  then show ?case by simp
next
  case (Cons y ys)
  show ?case
  proof (cases "id_at (y # ys)")
    case None
    with Cons.prems have "id_search ys = Some d" by simp
    from Cons.IH[OF this] obtain pre where
      "d \<noteq> []" "list_all is_digit d" "ys = pre @ CHR ''-'' # d \<or> ys = pre @ CHR ''-'' # d @ [newline]"
      by auto
    then have "y # ys = (y # pre) @ CHR ''-'' # d \<or> y # ys = (y # pre) @ CHR ''-'' # d @ [newline]"
      by auto
    then show ?thesis using \<open>d \<noteq> []\<close> \<open>list_all is_digit d\<close> by blast
  next
    case (Some d')
    with Cons.prems have "d' = d" by simp
    from id_at_SomeD[OF Some] this have
      "d \<noteq> []" "list_all is_digit d" "y # ys = [] @ CHR ''-'' # d \<or> y # ys = [] @ CHR ''-'' # d @ [newline]"
      by auto
    then show ?thesis by blast
  qed
qed

text \<open>
  Claim C4, as the code has it: \<open>extract_stage_id\<close> returns the digits \<open>d\<close> exactly
  when the URL ends in a hyphen followed by the non-empty digit run \<open>d\<close> (a single final
  newline after the digits is tolerated by \<open>$\<close>).  The hyphen is mandatory: a trailing
  digit run that no hyphen precedes gives \<open>None\<close>.
\<close>

theorem extract_stage_id_hyphen_digits:
  "extract_stage_id url = Some d \<longleftrightarrow>
     d \<noteq> [] \<and> list_all is_digit d \<and>
     (\<exists>pre. url = pre @ ''-'' @ d \<or> url = pre @ ''-'' @ d @ [newline])"
proof
  assume "extract_stage_id url = Some d"
  then show "d \<noteq> [] \<and> list_all is_digit d \<and>
     (\<exists>pre. url = pre @ ''-'' @ d \<or> url = pre @ ''-'' @ d @ [newline])"
    using id_search_SomeD[of url d] by (simp add: extract_stage_id_search)
next
  assume a: "d \<noteq> [] \<and> list_all is_digit d \<and>
     (\<exists>pre. url = pre @ ''-'' @ d \<or> url = pre @ ''-'' @ d @ [newline])"
  then obtain pre where "url = pre @ CHR ''-'' # d @ [] \<or> url = pre @ CHR ''-'' # d @ [newline]"
    by auto
  then obtain t where "url = pre @ CHR ''-'' # d @ t" "t = [] \<or> t = [newline]" by blast
  then show "extract_stage_id url = Some d"
    using a id_search_hit[of d t pre] by (simp add: extract_stage_id_search)
qed


theorem extract_stage_id_hyphen_digits_witness:
  "extract_stage_id ''https://www.stage.in/en/haryanvi/movie/kayantar-14145'' = Some ''14145''"
proof -
  have "''https://www.stage.in/en/haryanvi/movie/kayantar-14145'' =
        ''https://www.stage.in/en/haryanvi/movie/kayantar'' @ ''-'' @ ''14145''"
    by simp
  then have "\<exists>pre. ''https://www.stage.in/en/haryanvi/movie/kayantar-14145'' = pre @ ''-'' @ ''14145'' \<or>
                   ''https://www.stage.in/en/haryanvi/movie/kayantar-14145'' =
                     pre @ ''-'' @ ''14145'' @ [newline]"
    by blast
  moreover have "list_all is_digit ''14145''"
    by (simp add: is_digit_def digit_chars_def)
  ultimately show ?thesis
    using extract_stage_id_hyphen_digits
      [of "''https://www.stage.in/en/haryanvi/movie/kayantar-14145''" "''14145''"]
    by simp
qed

text \<open>
  The claim as written fails where the path ends in digits that no hyphen precedes.
\<close>

theorem extract_stage_id_no_hyphen_counterexample:
  "extract_stage_id ''https://www.stage.in/en/haryanvi/movie/14145'' = None"
  by code_simp

end
